theory Spec2Isabelle
  imports Main "HOL-Library.AList"
begin

section \<open>Python values that cross the wire\<close>

text \<open>
  The two servers (\<^verbatim>\<open>mock_weather_server.py\<close> and \<^verbatim>\<open>weather_mcp_server.py\<close>) read one
  line at a time, hand it to \<^verbatim>\<open>json.loads\<close>, and answer with a dictionary printed
  through \<^verbatim>\<open>json.dumps\<close>. The values \<^verbatim>\<open>json.loads\<close> can return are modelled by one
  datatype. A dictionary is the list of its items in insertion order; a float is
  kept as the numeric literal that denotes it, because no operation of the
  dispatcher computes with floats.
\<close>

datatype json =
    JNull
  | JBool bool
  | JInt int
  | JFloat string
  | JString string
  | JArray "json list"
  | JObject "(string \<times> json) list"

text \<open>
  Exceptions are values. The class matters only to \<^verbatim>\<open>main\<close>, whose first handler
  catches \<^verbatim>\<open>json.JSONDecodeError\<close> and whose second catches every other
  \<^verbatim>\<open>Exception\<close>; the text is what \<^verbatim>\<open>str(e)\<close> returns.
\<close>

datatype py_exception =
    JSONDecodeError string
  | AttributeError string
  | TypeError string
  | OtherException string

fun message :: "py_exception \<Rightarrow> string" where
  "message (JSONDecodeError m) = m"
| "message (AttributeError m) = m"
| "message (TypeError m) = m"
| "message (OtherException m) = m"

fun type_name :: "json \<Rightarrow> string" where
  "type_name JNull = ''NoneType''"
| "type_name (JBool b) = ''bool''"
| "type_name (JInt i) = ''int''"
| "type_name (JFloat f) = ''float''"
| "type_name (JString s) = ''str''"
| "type_name (JArray xs) = ''list''"
| "type_name (JObject kvs) = ''dict''"

definition no_attribute :: "json \<Rightarrow> string \<Rightarrow> py_exception" where
  "no_attribute v a =
     AttributeError ([CHR 0x27] @ type_name v @ [CHR 0x27] @ '' object has no attribute ''
                     @ [CHR 0x27] @ a @ [CHR 0x27])"

text \<open>
  \<^verbatim>\<open>x.get(key, default)\<close>: a dictionary answers with the value stored under the
  key, or with the default; every other value of the datatype has no method
  \<^verbatim>\<open>get\<close> and the call raises \<^verbatim>\<open>AttributeError\<close>.
\<close>

definition dict_get :: "(string \<times> json) list \<Rightarrow> string \<Rightarrow> json \<Rightarrow> json" where
  "dict_get kvs k d = (case map_of kvs k of Some v \<Rightarrow> v | None \<Rightarrow> d)"

fun py_get :: "json \<Rightarrow> string \<Rightarrow> json \<Rightarrow> py_exception + json" where
  "py_get (JObject kvs) k d = Inr (dict_get kvs k d)"
| "py_get v k d = Inl (no_attribute v ''get'')"

fun is_dict :: "json \<Rightarrow> bool" where
  "is_dict (JObject kvs) = True"
| "is_dict v = False"

text \<open>Sequencing of calls that may raise: the first exception ends the block.\<close>

fun and_then :: "'e + 'a \<Rightarrow> ('a \<Rightarrow> 'e + 'b) \<Rightarrow> 'e + 'b" where
  "and_then (Inl e) f = Inl e"
| "and_then (Inr x) f = f x"

subsection \<open>Decimal text of an integer, as \<^verbatim>\<open>str\<close> prints it\<close>

definition digit_char :: "nat \<Rightarrow> char" where
  "digit_char d = char_of (48 + d)"

function str_nat :: "nat \<Rightarrow> string" where
  "str_nat n = (if n < 10 then [digit_char n] else str_nat (n div 10) @ [digit_char (n mod 10)])"
  by pat_completeness auto
termination
  by (relation "measure id") auto

definition str_int :: "int \<Rightarrow> string" where
  "str_int i = (if i < 0 then CHR ''-'' # str_nat (nat (- i)) else str_nat (nat i))"

text \<open>
  \<^verbatim>\<open>str(v)\<close>, which is what an f-string applies to \<^verbatim>\<open>{v}\<close>. A string is
  inserted as it is, \<^verbatim>\<open>None\<close>, the booleans and the integers by their names and
  digits. The text of a float, a list or a dictionary is produced by Python's
  \<^verbatim>\<open>repr\<close>, taken here as the parameter \<open>repr\<close>.
\<close>

fun py_str :: "(json \<Rightarrow> string) \<Rightarrow> json \<Rightarrow> string" where
  "py_str repr (JString s) = s"
| "py_str repr JNull = ''None''"
| "py_str repr (JBool b) = (if b then ''True'' else ''False'')"
| "py_str repr (JInt i) = str_int i"
| "py_str repr v = repr v"

section \<open>The tool dispatcher\<close>

text \<open>
  What the servers take from their surroundings: the decoder \<^verbatim>\<open>json.loads\<close>,
  Python's \<^verbatim>\<open>repr\<close>, and the environment variable \<^verbatim>\<open>WEATHER_UNITS\<close> read by
  \<^verbatim>\<open>os.getenv\<close> (absent is \<open>None\<close>).
\<close>

record runtime =
  json_loads :: "string \<Rightarrow> py_exception + json"
  py_repr :: "json \<Rightarrow> string"
  WEATHER_UNITS :: "string option"

definition getenv_WEATHER_UNITS :: "runtime \<Rightarrow> string \<Rightarrow> json" where
  "getenv_WEATHER_UNITS rt dflt = JString (case WEATHER_UNITS rt of Some u \<Rightarrow> u | None \<Rightarrow> dflt)"

text \<open>
  The four tool implementations, as the dispatcher calls them: each takes the
  values found in \<^verbatim>\<open>arguments\<close> and either returns or raises. \<^verbatim>\<open>get_forecast\<close>
  returns a list on every path of both files, which is what the test
  \<^verbatim>\<open>result if result else ...\<close> of \<^verbatim>\<open>weather_mcp_server.py\<close> inspects.
\<close>

record tools =
  get_current_weather :: "json \<Rightarrow> json \<Rightarrow> py_exception + json"
  get_forecast :: "json \<Rightarrow> json \<Rightarrow> json \<Rightarrow> py_exception + json list"
  get_alerts :: "json \<Rightarrow> py_exception + json"
  get_air_quality :: "json \<Rightarrow> py_exception + json"

definition error_dict :: "string \<Rightarrow> json" where
  "error_dict m = JObject [(''error'', JString m)]"

text \<open>\<^verbatim>\<open>except Exception as e: return {"error": str(e)}\<close>\<close>

fun except_Exception :: "py_exception + json \<Rightarrow> json" where
  "except_Exception (Inl e) = error_dict (message e)"
| "except_Exception (Inr v) = v"

text \<open>
  \<^verbatim>\<open>handle_tool_call\<close> of \<^verbatim>\<open>mock_weather_server.py\<close>. Its first statement reads
  \<^verbatim>\<open>units\<close> from \<^verbatim>\<open>arguments\<close> before the \<^verbatim>\<open>try\<close> block is entered, so an exception
  raised there leaves the function; everything after it is inside the block.
\<close>

definition handle_tool_call_mock :: "runtime \<Rightarrow> tools \<Rightarrow> json \<Rightarrow> json \<Rightarrow> py_exception + json" where
  "handle_tool_call_mock rt t tool_name arguments =
     and_then (py_get arguments ''units'' (getenv_WEATHER_UNITS rt ''metric'')) (\<lambda>units.
       Inr (except_Exception (
         if tool_name = JString ''get_current_weather'' then
           and_then (py_get arguments ''location'' (JString ''London'')) (\<lambda>location.
             get_current_weather t location units)
         else if tool_name = JString ''get_forecast'' then
           and_then (py_get arguments ''location'' (JString ''London'')) (\<lambda>location.
           and_then (py_get arguments ''days'' (JInt 5)) (\<lambda>days.
           and_then (py_get arguments ''units'' (getenv_WEATHER_UNITS rt ''metric'')) (\<lambda>units.
             map_sum id JArray (get_forecast t location days units))))
         else if tool_name = JString ''get_alerts'' then
           and_then (py_get arguments ''location'' (JString ''London'')) (\<lambda>location.
             get_alerts t location)
         else if tool_name = JString ''get_air_quality'' then
           and_then (py_get arguments ''location'' (JString ''London'')) (\<lambda>location.
             get_air_quality t location)
         else Inr (error_dict (''Unknown tool: '' @ py_str (py_repr rt) tool_name)))))"

text \<open>
  \<^verbatim>\<open>handle_tool_call\<close> of \<^verbatim>\<open>weather_mcp_server.py\<close>: the whole body is inside the
  \<^verbatim>\<open>try\<close> block, and an empty forecast is replaced by an error dictionary.
\<close>

definition handle_tool_call_mcp :: "runtime \<Rightarrow> tools \<Rightarrow> json \<Rightarrow> json \<Rightarrow> py_exception + json" where
  "handle_tool_call_mcp rt t tool_name arguments =
     Inr (except_Exception (
       if tool_name = JString ''get_current_weather'' then
         and_then (py_get arguments ''location'' (JString ''London'')) (\<lambda>location.
         and_then (py_get arguments ''units'' (JString ''metric'')) (\<lambda>units.
           get_current_weather t location units))
       else if tool_name = JString ''get_forecast'' then
         and_then (py_get arguments ''location'' (JString ''London'')) (\<lambda>location.
         and_then (py_get arguments ''days'' (JInt 5)) (\<lambda>days.
         and_then (py_get arguments ''units'' (JString ''metric'')) (\<lambda>units.
         and_then (get_forecast t location days units) (\<lambda>result.
           Inr (if result \<noteq> [] then JArray result
                else error_dict ''No forecast data available'')))))
       else if tool_name = JString ''get_alerts'' then
         and_then (py_get arguments ''location'' (JString ''London'')) (\<lambda>location.
           get_alerts t location)
       else if tool_name = JString ''get_air_quality'' then
         and_then (py_get arguments ''location'' (JString ''London'')) (\<lambda>location.
           get_air_quality t location)
       else Inr (error_dict (''Unknown tool: '' @ py_str (py_repr rt) tool_name))))"


section \<open>The tool implementations\<close>

text \<open>
  The weather data itself is outside the protocol: table lookups, random draws,
  the clock, float arithmetic and the HTTP calls are taken from a \<open>world\<close>. What
  is modelled of each tool is its control flow: which values it accepts, when it
  raises, how many entries it returns and the shape of an entry.
\<close>

record world =
  OPENWEATHER_API_KEY :: string
  HAS_REQUESTS :: bool
  now_isoformat :: string
  date_in_days :: "nat \<Rightarrow> string"
  draw :: "string \<Rightarrow> json \<Rightarrow> nat \<Rightarrow> json"
  choice :: "nat \<Rightarrow> string"
  float_gt_3 :: "string \<Rightarrow> bool"
  mock_weather :: "string \<Rightarrow> json \<Rightarrow> (string \<times> json) list"
  mock_alerts :: "json \<Rightarrow> json list"
  mock_air_readings :: "(string \<times> json) list"
  fallback_weather :: "string \<Rightarrow> json \<Rightarrow> (string \<times> json) list"
  online_current_weather :: "json \<Rightarrow> py_exception + json"
  online_forecast :: "json \<Rightarrow> py_exception + json list"
  online_alerts :: "json \<Rightarrow> py_exception + json"
  online_air_quality :: "json \<Rightarrow> py_exception + json"

text \<open>\<^verbatim>\<open>FALLBACK_MODE = not OPENWEATHER_API_KEY or not HAS_REQUESTS\<close>\<close>

definition FALLBACK_MODE :: "world \<Rightarrow> bool" where
  "FALLBACK_MODE w = (OPENWEATHER_API_KEY w = [] \<or> \<not> HAS_REQUESTS w)"

definition cannot_be_integer :: "json \<Rightarrow> py_exception" where
  "cannot_be_integer v =
     TypeError ([CHR 0x27] @ type_name v @ [CHR 0x27] @ '' object cannot be interpreted as an integer'')"

text \<open>
  The number of rounds of \<^verbatim>\<open>for i in range(n)\<close>: an integer counts down to
  nothing when it is negative, a boolean is the integer 1 or 0, and every other
  value raises \<^verbatim>\<open>TypeError\<close>.
\<close>

fun py_range :: "json \<Rightarrow> py_exception + nat" where
  "py_range (JInt i) = Inr (nat i)"
| "py_range (JBool b) = Inr (if b then 1 else 0)"
| "py_range v = Inl (cannot_be_integer v)"

text \<open>
  \<^verbatim>\<open>min(days, 3)\<close>: the first argument is returned unless \<^verbatim>\<open>3 < days\<close>. The
  comparison of 3 with a float is the world's; with a string, \<^verbatim>\<open>None\<close>, a list or a
  dictionary it raises \<^verbatim>\<open>TypeError\<close>.
\<close>

fun py_min_3 :: "world \<Rightarrow> json \<Rightarrow> py_exception + json" where
  "py_min_3 w (JInt i) = Inr (JInt (if 3 < i then 3 else i))"
| "py_min_3 w (JBool b) = Inr (JBool b)"
| "py_min_3 w (JFloat f) = Inr (if float_gt_3 w f then JInt 3 else JFloat f)"
| "py_min_3 w v =
     Inl (TypeError ([CHR 0x27] @ ''<'' @ [CHR 0x27] @ '' not supported between instances of ''
                     @ [CHR 0x27] @ ''int'' @ [CHR 0x27] @ '' and ''
                     @ [CHR 0x27] @ type_name v @ [CHR 0x27]))"

subsection \<open>\<^verbatim>\<open>mock_weather_server.py\<close>\<close>

text \<open>
  \<^verbatim>\<open>get_current_weather\<close> starts with \<^verbatim>\<open>location.lower()\<close>, which only a string
  has; the dictionary it then builds is the world's, and the timestamp is added
  last.
\<close>

fun get_current_weather_mock :: "world \<Rightarrow> json \<Rightarrow> json \<Rightarrow> py_exception + json" where
  "get_current_weather_mock w (JString location) units =
     Inr (JObject (mock_weather w location units @ [(''timestamp'', JString (now_isoformat w))]))"
| "get_current_weather_mock w v units = Inl (no_attribute v ''lower'')"

definition forecast_entry_mock :: "world \<Rightarrow> json \<Rightarrow> json \<Rightarrow> nat \<Rightarrow> json" where
  "forecast_entry_mock w base_temp base_wind i =
     JObject [(''date'', JString (date_in_days w i)),
              (''temp_max'', draw w ''temp_max'' base_temp i),
              (''temp_min'', draw w ''temp_min'' base_temp i),
              (''condition'', JString (choice w i)),
              (''precipitation'', draw w ''precipitation'' JNull i),
              (''wind_speed'', draw w ''wind_speed'' base_wind i)]"

text \<open>\<^verbatim>\<open>get_forecast\<close>: one entry for each \<^verbatim>\<open>i in range(days)\<close>.\<close>

definition get_forecast_mock :: "world \<Rightarrow> json \<Rightarrow> json \<Rightarrow> json \<Rightarrow> py_exception + json list" where
  "get_forecast_mock w location days units =
     and_then (get_current_weather_mock w location units) (\<lambda>base_weather.
     and_then (py_get base_weather ''temperature'' (JInt 0)) (\<lambda>base_temp.
     and_then (py_get base_weather ''wind_speed'' (JInt 0)) (\<lambda>base_wind.
     and_then (py_range days) (\<lambda>n.
       Inr (map (forecast_entry_mock w base_temp base_wind) [0..<n])))))"

definition get_alerts_mock :: "world \<Rightarrow> json \<Rightarrow> py_exception + json" where
  "get_alerts_mock w location = Inr (JArray (mock_alerts w location))"

definition get_air_quality_mock :: "world \<Rightarrow> json \<Rightarrow> py_exception + json" where
  "get_air_quality_mock w location =
     Inr (JObject ((''location'', location) # mock_air_readings w
                   @ [(''timestamp'', JString (now_isoformat w))]))"

definition mock_tools :: "world \<Rightarrow> tools" where
  "mock_tools w =
     \<lparr> get_current_weather = get_current_weather_mock w,
       get_forecast = get_forecast_mock w,
       get_alerts = get_alerts_mock w,
       get_air_quality = get_air_quality_mock w \<rparr>"

subsection \<open>\<^verbatim>\<open>weather_mcp_server.py\<close>\<close>

text \<open>\<^verbatim>\<open>get_fallback_weather\<close> also starts with \<^verbatim>\<open>location.lower()\<close>.\<close>

fun get_fallback_weather :: "world \<Rightarrow> json \<Rightarrow> json \<Rightarrow> py_exception + json" where
  "get_fallback_weather w (JString location) units = Inr (JObject (fallback_weather w location units))"
| "get_fallback_weather w v units = Inl (no_attribute v ''lower'')"

definition with_timestamp :: "world \<Rightarrow> json \<Rightarrow> json" where
  "with_timestamp w weather =
     (case weather of
        JObject kvs \<Rightarrow> JObject (AList.update ''timestamp'' (JString (now_isoformat w)) kvs)
      | v \<Rightarrow> v)"

text \<open>
  \<^verbatim>\<open>get_current_weather\<close>: the fallback data in fallback mode; otherwise the
  answer of the HTTP call, and the fallback data in metric units when that
  raises.
\<close>

definition get_current_weather_mcp :: "world \<Rightarrow> json \<Rightarrow> json \<Rightarrow> py_exception + json" where
  "get_current_weather_mcp w location units =
     (if FALLBACK_MODE w then
        and_then (get_fallback_weather w location units) (\<lambda>weather. Inr (with_timestamp w weather))
      else if \<not> HAS_REQUESTS w then
        Inr (error_dict ''requests library not installed. Install with: pip install requests'')
      else
        (case online_current_weather w location of
           Inr weather \<Rightarrow> Inr weather
         | Inl e \<Rightarrow>
             and_then (get_fallback_weather w location (JString ''metric'')) (\<lambda>weather.
               Inr (with_timestamp w weather))))"

definition forecast_entry_fallback :: "world \<Rightarrow> json \<Rightarrow> json \<Rightarrow> nat \<Rightarrow> json" where
  "forecast_entry_fallback w base_temp base_wind i =
     JObject [(''date'', JString (date_in_days w i)),
              (''condition'', JString ''Sunny''),
              (''temp_max'', draw w ''temp_max'' base_temp i),
              (''temp_min'', draw w ''temp_min'' base_temp i),
              (''wind_speed'', draw w ''wind_speed'' base_wind i)]"

definition forecast_entry_cloudy :: "world \<Rightarrow> nat \<Rightarrow> json" where
  "forecast_entry_cloudy w i =
     JObject [(''date'', JString (date_in_days w i)),
              (''condition'', JString ''Cloudy''),
              (''temp_max'', JInt 18), (''temp_min'', JInt 12), (''wind_speed'', JInt 8)]"

text \<open>
  \<^verbatim>\<open>result[:days]\<close> on a list: the first \<open>days\<close> elements, all but the last
  \<open>- days\<close> when \<open>days\<close> is negative; a boolean is the integer 1 or 0, \<^verbatim>\<open>None\<close>
  takes everything, and any other value raises \<^verbatim>\<open>TypeError\<close>.
\<close>

fun py_slice_to :: "json list \<Rightarrow> json \<Rightarrow> py_exception + json list" where
  "py_slice_to xs (JInt d) =
     Inr (if 0 \<le> d then take (nat d) xs else take (length xs - nat (- d)) xs)"
| "py_slice_to xs (JBool b) = Inr (take (if b then 1 else 0) xs)"
| "py_slice_to xs JNull = Inr xs"
| "py_slice_to xs v =
     Inl (TypeError ''slice indices must be integers or None or have an __index__ method'')"

text \<open>
  \<^verbatim>\<open>get_forecast\<close>: in fallback mode one entry for each
  \<^verbatim>\<open>i in range(min(days, 3))\<close>; otherwise the first \<open>days\<close> daily entries of the
  HTTP answer, and when anything raises on that path (the slice included) the
  list of \<^verbatim>\<open>range(min(days, 3))\<close> cloudy days, built inside the handler.
\<close>

definition get_forecast_mcp :: "world \<Rightarrow> json \<Rightarrow> json \<Rightarrow> json \<Rightarrow> py_exception + json list" where
  "get_forecast_mcp w location days units =
     (if FALLBACK_MODE w then
        and_then (get_fallback_weather w location units) (\<lambda>base.
        and_then (py_get base ''temperature'' (JInt 20)) (\<lambda>base_temp.
        and_then (py_get base ''wind_speed'' (JInt 10)) (\<lambda>base_wind.
        and_then (py_min_3 w days) (\<lambda>m.
        and_then (py_range m) (\<lambda>n.
          Inr (map (forecast_entry_fallback w base_temp base_wind) [0..<n]))))))
      else if \<not> HAS_REQUESTS w then Inr []
      else
        (case and_then (online_forecast w location) (\<lambda>result. py_slice_to result days) of
           Inr result \<Rightarrow> Inr result
         | Inl e \<Rightarrow>
             and_then (py_min_3 w days) (\<lambda>m.
             and_then (py_range m) (\<lambda>n.
               Inr (map (forecast_entry_cloudy w) [0..<n])))))"

definition get_alerts_mcp :: "world \<Rightarrow> json \<Rightarrow> py_exception + json" where
  "get_alerts_mcp w location =
     (if FALLBACK_MODE w \<or> \<not> HAS_REQUESTS w then Inr (JArray [])
      else (case online_alerts w location of Inr alerts \<Rightarrow> Inr alerts | Inl e \<Rightarrow> Inr (JArray [])))"

definition fallback_air_quality :: "world \<Rightarrow> json \<Rightarrow> json" where
  "fallback_air_quality w location =
     JObject [(''location'', location), (''aqi'', JInt 2), (''aqi_quality'', JString ''Fair''),
              (''pm25'', JFloat ''35.0''), (''pm10'', JFloat ''50.0''), (''no2'', JFloat ''20.0''),
              (''so2'', JFloat ''10.0''), (''o3'', JFloat ''60.0''), (''co'', JFloat ''0.5''),
              (''timestamp'', JString (now_isoformat w))]"

definition get_air_quality_mcp :: "world \<Rightarrow> json \<Rightarrow> py_exception + json" where
  "get_air_quality_mcp w location =
     (if FALLBACK_MODE w \<or> \<not> HAS_REQUESTS w then Inr (fallback_air_quality w location)
      else (case online_air_quality w location of
              Inr quality \<Rightarrow> Inr quality
            | Inl e \<Rightarrow> Inr (fallback_air_quality w location)))"

definition mcp_tools :: "world \<Rightarrow> tools" where
  "mcp_tools w =
     \<lparr> get_current_weather = get_current_weather_mcp w,
       get_forecast = get_forecast_mcp w,
       get_alerts = get_alerts_mcp w,
       get_air_quality = get_air_quality_mcp w \<rparr>"

section \<open>The tool registry\<close>

definition schema :: "(string \<times> json) list \<Rightarrow> json" where
  "schema props =
     JObject [(''type'', JString ''object''),
              (''properties'', JObject props),
              (''required'', JArray [JString ''location''])]"

definition descriptor :: "string \<Rightarrow> string \<Rightarrow> (string \<times> json) list \<Rightarrow> json" where
  "descriptor n d props =
     JObject [(''name'', JString n), (''description'', JString d), (''inputSchema'', schema props)]"

text \<open>\<^verbatim>\<open>list_tools\<close> of \<^verbatim>\<open>mock_weather_server.py\<close>.\<close>

definition list_tools_mock :: "json list" where
  "list_tools_mock =
     [descriptor ''get_current_weather'' ''Get current weather for a location''
        [(''location'', JObject [(''type'', JString ''string''),
                                   (''description'', JString ''City name or coordinates'')])],
      descriptor ''get_forecast'' ''Get weather forecast''
        [(''location'', JObject [(''type'', JString ''string'')]),
         (''days'', JObject [(''type'', JString ''integer''), (''default'', JInt 5)])],
      descriptor ''get_alerts'' ''Get weather alerts''
        [(''location'', JObject [(''type'', JString ''string'')])],
      descriptor ''get_air_quality'' ''Get air quality information''
        [(''location'', JObject [(''type'', JString ''string'')])]]"

text \<open>\<^verbatim>\<open>list_tools\<close> of \<^verbatim>\<open>weather_mcp_server.py\<close>.\<close>

definition list_tools_mcp :: "json list" where
  "list_tools_mcp =
     [descriptor ''get_current_weather'' ''Get current weather conditions for a location''
        [(''location'', JObject [(''type'', JString ''string''),
                                   (''description'', JString ''City name'')])],
      descriptor ''get_forecast'' ''Get weather forecast for multiple days''
        [(''location'', JObject [(''type'', JString ''string'')]),
         (''days'', JObject [(''type'', JString ''integer''), (''default'', JInt 5)])],
      descriptor ''get_alerts'' ''Get weather alerts for a location''
        [(''location'', JObject [(''type'', JString ''string'')])],
      descriptor ''get_air_quality'' ''Get air quality information''
        [(''location'', JObject [(''type'', JString ''string'')])]]"


text \<open>Reading a key of a dictionary that is known to hold it; \<open>None\<close> otherwise.\<close>

fun field :: "string \<Rightarrow> json \<Rightarrow> json option" where
  "field k (JObject kvs) = map_of kvs k"
| "field k v = None"

fun tool_names :: "json list \<Rightarrow> json list" where
  "tool_names [] = []"
| "tool_names (d # ds) = (case field ''name'' d of Some n \<Rightarrow> n # tool_names ds
                                                  | None \<Rightarrow> tool_names ds)"

section \<open>The server loop\<close>

text \<open>
  A server is its \<^verbatim>\<open>handle_tool_call\<close> and its \<^verbatim>\<open>list_tools\<close>; the body of
  \<^verbatim>\<open>main\<close> is the same text in both files.
\<close>

record server =
  handle_tool_call :: "json \<Rightarrow> json \<Rightarrow> py_exception + json"
  list_tools :: "json list"

definition mock_weather_server :: "runtime \<Rightarrow> tools \<Rightarrow> server" where
  "mock_weather_server rt t =
     \<lparr> handle_tool_call = handle_tool_call_mock rt t, list_tools = list_tools_mock \<rparr>"

definition weather_mcp_server :: "runtime \<Rightarrow> tools \<Rightarrow> server" where
  "weather_mcp_server rt t =
     \<lparr> handle_tool_call = handle_tool_call_mcp rt t, list_tools = list_tools_mcp \<rparr>"

definition success_response :: "json \<Rightarrow> json \<Rightarrow> json" where
  "success_response result request_id =
     JObject [(''jsonrpc'', JString ''2.0''), (''result'', result), (''id'', request_id)]"

definition error_response :: "int \<Rightarrow> string \<Rightarrow> json" where
  "error_response code msg =
     JObject [(''jsonrpc'', JString ''2.0''),
              (''error'', JObject [(''code'', JInt code), (''message'', JString msg)]),
              (''id'', JNull)]"

text \<open>
  The statements of the \<^verbatim>\<open>try\<close> block of \<^verbatim>\<open>main\<close>, from \<^verbatim>\<open>json.loads(line)\<close> to
  the response that is printed. The value is the response, or the exception that
  left the block.
\<close>

definition dispatch_method :: "runtime \<Rightarrow> server \<Rightarrow> json \<Rightarrow> json \<Rightarrow> py_exception + json" where
  "dispatch_method rt srv method params =
     (if method = JString ''tools/call'' then
        and_then (py_get params ''name'' JNull) (\<lambda>tool_name.
        and_then (py_get params ''arguments'' (JObject [])) (\<lambda>arguments.
          handle_tool_call srv tool_name arguments))
      else if method = JString ''tools/list'' then
        Inr (JObject [(''tools'', JArray (list_tools srv))])
      else Inr (error_dict (''Unknown method: '' @ py_str (py_repr rt) method)))"

definition handle_request :: "runtime \<Rightarrow> server \<Rightarrow> json \<Rightarrow> py_exception + json" where
  "handle_request rt srv request =
     and_then (py_get request ''method'' JNull) (\<lambda>method.
     and_then (py_get request ''params'' (JObject [])) (\<lambda>params.
     and_then (py_get request ''id'' (JInt 1)) (\<lambda>request_id.
     and_then (dispatch_method rt srv method params) (\<lambda>result.
       Inr (success_response result request_id)))))"

definition try_block :: "runtime \<Rightarrow> server \<Rightarrow> string \<Rightarrow> py_exception + json" where
  "try_block rt srv line = and_then (json_loads rt line) (handle_request rt srv)"

text \<open>
  The two handlers of \<^verbatim>\<open>main\<close>: \<^verbatim>\<open>except json.JSONDecodeError\<close> first, then
  \<^verbatim>\<open>except Exception as e\<close>. Either prints one error response.
\<close>

fun handlers :: "py_exception + json \<Rightarrow> json" where
  "handlers (Inr response) = response"
| "handlers (Inl (JSONDecodeError m)) = error_response (- 32700) ''Parse error''"
| "handlers (Inl e) = error_response (- 32603) (message e)"

definition handle_line :: "runtime \<Rightarrow> server \<Rightarrow> string \<Rightarrow> json" where
  "handle_line rt srv line = handlers (try_block rt srv line)"

text \<open>
  Standard input is the text that remains to be read. \<^verbatim>\<open>sys.stdin.readline()\<close>
  returns the text up to and including the next newline, or all that is left
  when no newline follows, which is the empty string at end of stream.
\<close>

definition newline :: char where
  "newline = CHR 0x0A"

definition readline :: "string \<Rightarrow> string \<times> string" where
  "readline input =
     (case dropWhile (\<lambda>c. c \<noteq> newline) input of
        [] \<Rightarrow> (input, [])
      | nl # rest \<Rightarrow> (takeWhile (\<lambda>c. c \<noteq> newline) input @ [nl], rest))"

text \<open>
  \<^verbatim>\<open>while True\<close>: read a line, leave the loop on the empty string, otherwise
  print the one response of the line and go round again. The value is the list
  of pairs of a line read and the response printed for it, in order.
\<close>

function main_loop :: "runtime \<Rightarrow> server \<Rightarrow> string \<Rightarrow> (string \<times> json) list" where
  "main_loop rt srv input =
     (case readline input of
        (line, rest) \<Rightarrow>
          if line = [] then []
          else (line, handle_line rt srv line) # main_loop rt srv rest)"
  by pat_completeness auto
termination
proof (relation "measure (\<lambda>(rt, srv, input). length input)")
  show "wf (measure (\<lambda>(rt, srv, input). length input))" by simp
next
  fix rt :: runtime and srv :: server and line rest inp :: string
  assume r: "(line, rest) = readline inp" and ne: "line \<noteq> []"
  have "length rest < length inp"
  proof (cases "dropWhile (\<lambda>c. c \<noteq> newline) inp")
    case Nil
    with r ne show ?thesis by (simp add: readline_def)
  next
    case (Cons nl rest')
    with r have "rest = rest'" by (simp add: readline_def)
    moreover have "length (dropWhile (\<lambda>c. c \<noteq> newline) inp) \<le> length inp"
      by (rule length_dropWhile_le)
    ultimately show ?thesis using Cons by simp
  qed
  then show "((rt, srv, rest), (rt, srv, inp)) \<in> measure (\<lambda>(rt, srv, input). length input)"
    by simp
qed


section \<open>Reading requests and responses\<close>

text \<open>The code of the \<^verbatim>\<open>error\<close> member of a response, when it has one.\<close>

definition error_code :: "json \<Rightarrow> json option" where
  "error_code response =
     (case field ''error'' response of Some e \<Rightarrow> field ''code'' e | None \<Rightarrow> None)"



text \<open>
  The lines of a text, counted without reading it: one for each newline, and
  one more for what follows the last newline when that is not empty.
\<close>

definition count_lines :: "string \<Rightarrow> nat" where
  "count_lines input =
     length (filter (\<lambda>c. c = newline) input)
     + (if input \<noteq> [] \<and> last input \<noteq> newline then 1 else 0)"


section \<open>The decoder \<^verbatim>\<open>json.loads\<close>\<close>

text \<open>
  The text is cut into tokens, and the tokens are read by recursive descent:
  the grammar is that of \<^verbatim>\<open>json.loads\<close> with its default arguments, including
  the literals \<^verbatim>\<open>NaN\<close>, \<^verbatim>\<open>Infinity\<close> and \<^verbatim>\<open>-Infinity\<close> and the rejection of
  control characters inside strings. Every failure of the grammar is a
  \<^verbatim>\<open>JSONDecodeError\<close>; its text and position are not modelled. Strings are
  8-bit here, so an escape \<^verbatim>\<open>\uXXXX\<close> above \<^verbatim>\<open>00FF\<close> falls outside the model and is
  reported by another exception. The limits of an interpreter (depth of
  nesting, length of an integer literal) are not modelled either.
\<close>

datatype token =
    TLBrace | TRBrace | TLBrack | TRBrack | TComma | TColon
  | TString string | TInt int | TFloat string | TTrue | TFalse | TNull

definition is_digit :: "char \<Rightarrow> bool" where
  "is_digit c = (48 \<le> (of_char c :: nat) \<and> (of_char c :: nat) \<le> 57)"

definition is_whitespace :: "char \<Rightarrow> bool" where
  "is_whitespace c = (c = CHR '' '' \<or> c = CHR 0x09 \<or> c = CHR 0x0A \<or> c = CHR 0x0D)"

definition digit_val :: "char \<Rightarrow> nat" where
  "digit_val c = of_char c - 48"

definition nat_of_digits :: "string \<Rightarrow> nat" where
  "nat_of_digits ds = foldl (\<lambda>n c. 10 * n + digit_val c) 0 ds"

definition hex_val :: "char \<Rightarrow> nat option" where
  "hex_val c =
     (let n = (of_char c :: nat) in
      if 48 \<le> n \<and> n \<le> 57 then Some (n - 48)
      else if 97 \<le> n \<and> n \<le> 102 then Some (n - 87)
      else if 65 \<le> n \<and> n \<le> 70 then Some (n - 55)
      else None)"

definition decode_error :: "string \<Rightarrow> py_exception + 'a" where
  "decode_error m = Inl (JSONDecodeError m)"

fun unescape :: "char \<Rightarrow> char option" where
  "unescape c =
     (if c = CHR 0x22 then Some (CHR 0x22)
      else if c = CHR 0x5C then Some (CHR 0x5C)
      else if c = CHR ''/'' then Some (CHR ''/'')
      else if c = CHR ''b'' then Some (CHR 0x08)
      else if c = CHR ''f'' then Some (CHR 0x0C)
      else if c = CHR ''n'' then Some (CHR 0x0A)
      else if c = CHR ''r'' then Some (CHR 0x0D)
      else if c = CHR ''t'' then Some (CHR 0x09)
      else None)"

definition code_point :: "char \<Rightarrow> char \<Rightarrow> char \<Rightarrow> char \<Rightarrow> nat option" where
  "code_point a b c d =
     (case (hex_val a, hex_val b, hex_val c, hex_val d) of
        (Some x, Some y, Some z, Some u) \<Rightarrow> Some (((x * 16 + y) * 16 + z) * 16 + u)
      | _ \<Rightarrow> None)"

fun scan_string :: "string \<Rightarrow> py_exception + string \<times> string" where
  "scan_string [] = decode_error ''Unterminated string''"
| "scan_string (c # cs) =
     (if c = CHR 0x22 then Inr ([], cs)
      else if c = CHR 0x5C then
        (case cs of
           [] \<Rightarrow> decode_error ''Unterminated string''
         | e # cs' \<Rightarrow>
             if e = CHR ''u'' then
               (case cs' of
                  h1 # h2 # h3 # h4 # cs'' \<Rightarrow>
                    (case code_point h1 h2 h3 h4 of
                       None \<Rightarrow> decode_error ''Invalid unicode escape''
                     | Some n \<Rightarrow>
                         if n < 256 then
                           and_then (scan_string cs'') (\<lambda>(s, rest). Inr (char_of n # s, rest))
                         else Inl (OtherException ''character outside Latin-1''))
                | _ \<Rightarrow> decode_error ''Invalid unicode escape'')
             else
               (case unescape e of
                  None \<Rightarrow> decode_error ''Invalid escape''
                | Some c' \<Rightarrow> and_then (scan_string cs') (\<lambda>(s, rest). Inr (c' # s, rest))))
      else if (of_char c :: nat) < 32 then decode_error ''Invalid control character''
      else and_then (scan_string cs) (\<lambda>(s, rest). Inr (c # s, rest)))"


lemma and_then_eq_Inr:
  "and_then m f = Inr y \<longleftrightarrow> (\<exists>x. m = Inr x \<and> f x = Inr y)"
  by (cases m) auto

lemma scan_string_shorter:
  "scan_string cs = Inr (s, rest) \<Longrightarrow> length rest < length cs"
proof (induction cs arbitrary: s rest rule: length_induct)
  case (1 cs)
  show ?case
  proof (cases cs)
    case Nil
    with "1.prems" show ?thesis by (simp add: decode_error_def)
  next
    case (Cons c cs1)
    with "1.prems"
    have "rest = cs1 \<or> (\<exists>ys s'. scan_string ys = Inr (s', rest) \<and> length ys < length cs)"
      by (auto simp: decode_error_def and_then_eq_Inr
               split: if_splits list.splits option.splits)
    then show ?thesis
    proof
      assume "rest = cs1"
      with Cons show ?thesis by simp
    next
      assume "\<exists>ys s'. scan_string ys = Inr (s', rest) \<and> length ys < length cs"
      then obtain ys s' where ys: "scan_string ys = Inr (s', rest)" "length ys < length cs"
        by blast
      with "1.IH" have "length rest < length ys" by blast
      with ys show ?thesis by simp
    qed
  qed
qed

text \<open>
  A number: an optional minus sign, then \<open>0\<close> or a digit from 1 to 9 followed by
  digits, then an optional fraction and an optional exponent. With neither
  fraction nor exponent it is an integer, otherwise a float.
\<close>

definition scan_fraction :: "string \<Rightarrow> string \<times> string" where
  "scan_fraction s =
     (case s of
        p # d # cs \<Rightarrow>
          if p = CHR ''.'' \<and> is_digit d
          then (p # takeWhile is_digit (d # cs), dropWhile is_digit (d # cs))
          else ([], s)
      | _ \<Rightarrow> ([], s))"

definition scan_exponent :: "string \<Rightarrow> string \<times> string" where
  "scan_exponent s =
     (case s of
        e # cs \<Rightarrow>
          if e = CHR ''e'' \<or> e = CHR ''E'' then
            (case cs of
               g # d # cs' \<Rightarrow>
                 if (g = CHR ''+'' \<or> g = CHR ''-'') \<and> is_digit d
                 then (e # g # takeWhile is_digit (d # cs'), dropWhile is_digit (d # cs'))
                 else if is_digit g
                 then (e # takeWhile is_digit cs, dropWhile is_digit cs)
                 else ([], s)
             | [g] \<Rightarrow> if is_digit g then ([e, g], []) else ([], s)
             | [] \<Rightarrow> ([], s))
          else ([], s)
      | [] \<Rightarrow> ([], s))"

definition scan_integer :: "string \<Rightarrow> (string \<times> string) option" where
  "scan_integer s =
     (case s of
        [] \<Rightarrow> None
      | c # cs \<Rightarrow>
          if c = CHR ''0'' then Some ([c], cs)
          else if is_digit c then Some (takeWhile is_digit s, dropWhile is_digit s)
          else None)"

definition scan_number :: "string \<Rightarrow> (token \<times> string) option" where
  "scan_number s =
     (let (sign, s1) = (case s of c # cs \<Rightarrow> if c = CHR ''-'' then ([c], cs) else ([], s)
                                 | [] \<Rightarrow> ([], s))
      in case scan_integer s1 of
           None \<Rightarrow> None
         | Some (ds, s2) \<Rightarrow>
             (let (frac, s3) = scan_fraction s2; (ex, s4) = scan_exponent s3
              in if frac = [] \<and> ex = []
                 then Some (TInt (if sign = [] then int (nat_of_digits ds)
                                  else - int (nat_of_digits ds)), s4)
                 else Some (TFloat (sign @ ds @ frac @ ex), s4)))"


definition starts_with :: "string \<Rightarrow> string \<Rightarrow> bool" where
  "starts_with p s = (take (length p) s = p)"

text \<open>
  A value that is neither a string nor a container, tried in the order of the
  scanner: \<^verbatim>\<open>null\<close>, \<^verbatim>\<open>true\<close>, \<^verbatim>\<open>false\<close>, a number, then \<^verbatim>\<open>NaN\<close>, \<^verbatim>\<open>Infinity\<close> and
  \<^verbatim>\<open>-Infinity\<close>, which \<^verbatim>\<open>json.loads\<close> accepts as floats.
\<close>

definition scan_atom :: "string \<Rightarrow> (token \<times> string) option" where
  "scan_atom s =
     (if starts_with ''null'' s then Some (TNull, drop 4 s)
      else if starts_with ''true'' s then Some (TTrue, drop 4 s)
      else if starts_with ''false'' s then Some (TFalse, drop 5 s)
      else (case scan_number s of
              Some r \<Rightarrow> Some r
            | None \<Rightarrow>
                if starts_with ''NaN'' s then Some (TFloat ''NaN'', drop 3 s)
                else if starts_with ''Infinity'' s then Some (TFloat ''Infinity'', drop 8 s)
                else if starts_with ''-Infinity'' s then Some (TFloat ''-Infinity'', drop 9 s)
                else None))"

lemma scan_integer_shorter:
  "scan_integer s = Some (ds, rest) \<Longrightarrow> length rest < length s"
proof (cases s)
  case Nil
  then show "scan_integer s = Some (ds, rest) \<Longrightarrow> ?thesis" by (simp add: scan_integer_def)
next
  case (Cons c cs)
  have "length (dropWhile is_digit cs) \<le> length cs" by (rule length_dropWhile_le)
  with Cons show "scan_integer s = Some (ds, rest) \<Longrightarrow> ?thesis"
    by (auto simp: scan_integer_def split: if_splits)
qed

lemma scan_fraction_shorter:
  "scan_fraction s = (f, rest) \<Longrightarrow> length rest \<le> length s"
proof -
  have "length (dropWhile is_digit cs) \<le> length cs" for cs by (rule length_dropWhile_le)
  then show "scan_fraction s = (f, rest) \<Longrightarrow> ?thesis"
    by (auto simp: scan_fraction_def le_Suc_eq split: list.splits if_splits)
qed

lemma scan_exponent_shorter:
  "scan_exponent s = (e, rest) \<Longrightarrow> length rest \<le> length s"
proof -
  have "length (dropWhile is_digit cs) \<le> length cs" for cs by (rule length_dropWhile_le)
  then show "scan_exponent s = (e, rest) \<Longrightarrow> ?thesis"
    by (auto simp: scan_exponent_def le_Suc_eq split: list.splits if_splits)
qed

lemma scan_number_shorter:
  "scan_number s = Some (t, rest) \<Longrightarrow> length rest < length s"
proof -
  assume a: "scan_number s = Some (t, rest)"
  obtain sign s1 where s1: "(case s of c # cs \<Rightarrow> if c = CHR ''-'' then ([c], cs) else ([], s)
                                 | [] \<Rightarrow> ([], s)) = (sign, s1)"
    by (cases "(case s of c # cs \<Rightarrow> if c = CHR ''-'' then ([c], cs) else ([], s)
                                 | [] \<Rightarrow> ([], s))") auto
  then have l1: "length s1 \<le> length s" by (auto split: list.splits if_splits)
  from a s1 obtain ds s2 where s2: "scan_integer s1 = Some (ds, s2)"
    by (auto simp: scan_number_def split: option.splits)
  obtain frac s3 where s3: "scan_fraction s2 = (frac, s3)" by (cases "scan_fraction s2") auto
  obtain ex s4 where s4: "scan_exponent s3 = (ex, s4)" by (cases "scan_exponent s3") auto
  from a s1 s2 s3 s4 have "rest = s4" by (auto simp: scan_number_def split: if_splits)
  with l1 scan_integer_shorter [OF s2] scan_fraction_shorter [OF s3] scan_exponent_shorter [OF s4]
  show ?thesis by simp
qed

lemma starts_with_nonempty:
  "starts_with (c # p) s \<Longrightarrow> 0 < length s"
  by (cases s) (auto simp: starts_with_def)

lemma scan_atom_shorter:
  "scan_atom s = Some (t, rest) \<Longrightarrow> length rest < length s"
  by (auto simp: scan_atom_def scan_number_shorter
           split: if_splits option.splits dest: starts_with_nonempty)

definition cons_token :: "token \<Rightarrow> py_exception + token list \<Rightarrow> py_exception + token list" where
  "cons_token t r = and_then r (\<lambda>ts. Inr (t # ts))"

function tokenize :: "string \<Rightarrow> py_exception + token list" where
  "tokenize [] = Inr []"
| "tokenize (c # cs) =
     (if is_whitespace c then tokenize cs
      else if c = CHR ''{'' then cons_token TLBrace (tokenize cs)
      else if c = CHR ''}'' then cons_token TRBrace (tokenize cs)
      else if c = CHR ''['' then cons_token TLBrack (tokenize cs)
      else if c = CHR '']'' then cons_token TRBrack (tokenize cs)
      else if c = CHR '','' then cons_token TComma (tokenize cs)
      else if c = CHR '':'' then cons_token TColon (tokenize cs)
      else if c = CHR 0x22 then
        (case scan_string cs of
           Inl e \<Rightarrow> Inl e
         | Inr (s, rest) \<Rightarrow> cons_token (TString s) (tokenize rest))
      else
        (case scan_atom (c # cs) of
           None \<Rightarrow> decode_error ''Expecting value''
         | Some (t, rest) \<Rightarrow> cons_token t (tokenize rest)))"
  by pat_completeness auto
termination
proof (relation "measure length")
qed (auto dest: scan_string_shorter scan_atom_shorter)

text \<open>
  Python builds a dictionary from the pairs in the order read: a key that
  comes again keeps its place and takes the later value.
\<close>

definition dict_of_pairs :: "(string \<times> json) list \<Rightarrow> (string \<times> json) list" where
  "dict_of_pairs ps = foldl (\<lambda>d (k, v). AList.update k v d) [] ps"

function parse_value :: "token list \<Rightarrow> py_exception + json \<times> token list"
  and parse_elements :: "token list \<Rightarrow> py_exception + json list \<times> token list"
  and parse_members :: "token list \<Rightarrow> py_exception + (string \<times> json) list \<times> token list"
where
  "parse_value ts =
     (case ts of
        TNull # r \<Rightarrow> Inr (JNull, r)
      | TTrue # r \<Rightarrow> Inr (JBool True, r)
      | TFalse # r \<Rightarrow> Inr (JBool False, r)
      | TInt i # r \<Rightarrow> Inr (JInt i, r)
      | TFloat f # r \<Rightarrow> Inr (JFloat f, r)
      | TString s # r \<Rightarrow> Inr (JString s, r)
      | TLBrack # TRBrack # r \<Rightarrow> Inr (JArray [], r)
      | TLBrack # r \<Rightarrow> and_then (parse_elements r) (\<lambda>(vs, r'). Inr (JArray vs, r'))
      | TLBrace # TRBrace # r \<Rightarrow> Inr (JObject [], r)
      | TLBrace # r \<Rightarrow> and_then (parse_members r) (\<lambda>(ps, r'). Inr (JObject (dict_of_pairs ps), r'))
      | _ \<Rightarrow> decode_error ''Expecting value'')"
| "parse_elements ts =
     (case parse_value ts of
        Inl e \<Rightarrow> Inl e
      | Inr (v, r) \<Rightarrow>
          if length r < length ts then
            (case r of
               TComma # r' \<Rightarrow> and_then (parse_elements r') (\<lambda>(vs, r''). Inr (v # vs, r''))
             | TRBrack # r' \<Rightarrow> Inr ([v], r')
             | _ \<Rightarrow> decode_error ''Expecting , delimiter'')
          else decode_error ''Expecting value'')"
| "parse_members ts =
     (case ts of
        TString k # TColon # r \<Rightarrow>
          (case parse_value r of
             Inl e \<Rightarrow> Inl e
           | Inr (v, r') \<Rightarrow>
               if length r' < length r then
                 (case r' of
                    TComma # r'' \<Rightarrow> and_then (parse_members r'') (\<lambda>(ps, r3). Inr ((k, v) # ps, r3))
                  | TRBrace # r'' \<Rightarrow> Inr ([(k, v)], r'')
                  | _ \<Rightarrow> decode_error ''Expecting , delimiter'')
               else decode_error ''Expecting value'')
      | TString k # r \<Rightarrow> decode_error ''Expecting : delimiter''
      | _ \<Rightarrow> decode_error ''Expecting property name enclosed in double quotes'')"
  by pat_completeness auto
termination
  by (relation "measure (\<lambda>x. case x of Inl ts \<Rightarrow> 2 * length ts
                               | Inr (Inl ts) \<Rightarrow> 2 * length ts + 1
                               | Inr (Inr ts) \<Rightarrow> 2 * length ts + 1)") auto

definition loads :: "string \<Rightarrow> py_exception + json" where
  "loads s =
     and_then (tokenize s) (\<lambda>ts.
     and_then (parse_value ts) (\<lambda>(v, r).
       if r = [] then Inr v else decode_error ''Extra data''))"

section \<open>Concrete surroundings for running the models\<close>

text \<open>
  A world without an API key, hence in fallback mode, whose data are fixed: the
  models are evaluated in it on concrete inputs.
\<close>

definition sample_world :: world where
  "sample_world =
     \<lparr> OPENWEATHER_API_KEY = [], HAS_REQUESTS = False,
       now_isoformat = ''2026-01-01T00:00:00'',
       date_in_days = (\<lambda>i. ''2026-01-0'' @ str_nat (Suc i)),
       draw = (\<lambda>f b i. b),
       choice = (\<lambda>i. ''Sunny''),
       float_gt_3 = (\<lambda>f. False),
       mock_weather = (\<lambda>l u. [(''location'', JString l), (''temperature'', JFloat ''12.5''),
                               (''wind_speed'', JFloat ''15.3'')]),
       mock_alerts = (\<lambda>l. []),
       mock_air_readings = [(''aqi'', JInt 42)],
       fallback_weather = (\<lambda>l u. [(''location'', JString l), (''temperature'', JFloat ''21.1''),
                                   (''wind_speed'', JFloat ''12.9'')]),
       online_current_weather = (\<lambda>l. Inl (OtherException ''offline'')),
       online_forecast = (\<lambda>l. Inl (OtherException ''offline'')),
       online_alerts = (\<lambda>l. Inl (OtherException ''offline'')),
       online_air_quality = (\<lambda>l. Inl (OtherException ''offline'')) \<rparr>"

text \<open>
  A runtime whose decoder is \<open>loads\<close> and in which \<^verbatim>\<open>WEATHER_UNITS\<close> is not set.
  Its \<^verbatim>\<open>repr\<close> only names the type: no evaluation below prints a float or a
  container.
\<close>

definition sample_runtime :: runtime where
  "sample_runtime =
     \<lparr> json_loads = loads, py_repr = (\<lambda>v. ''<'' @ type_name v @ ''>''), WEATHER_UNITS = None \<rparr>"

definition sample_mock_server :: server where
  "sample_mock_server = mock_weather_server sample_runtime (mock_tools sample_world)"

definition sample_mcp_server :: server where
  "sample_mcp_server = weather_mcp_server sample_runtime (mcp_tools sample_world)"

section \<open>Facts about the dispatcher\<close>

declare main_loop.simps [simp del]


lemma field_success_response [simp]:
  "field ''result'' (success_response r i) = Some r"
  "field ''id'' (success_response r i) = Some i"
  "field ''error'' (success_response r i) = None"
  by (simp_all add: success_response_def)

lemma field_error_response [simp]:
  "field ''result'' (error_response c m) = None"
  "field ''id'' (error_response c m) = Some JNull"
  "error_code (error_response c m) = Some (JInt c)"
  by (simp_all add: error_response_def error_code_def)



lemma handle_tool_call_mcp_returns:
  "\<exists>r. handle_tool_call_mcp rt t nm args = Inr r"
  by (simp add: handle_tool_call_mcp_def)

lemma handle_tool_call_mock_returns:
  "\<exists>r. handle_tool_call_mock rt t nm (JObject args) = Inr r"
  by (simp add: handle_tool_call_mock_def)





subsection \<open>Facts about the loop\<close>

lemma readline_Nil [simp]: "readline [] = ([], [])"
  by (simp add: readline_def)





lemma main_loop_Nil [simp]: "main_loop rt srv [] = []"
  by (simp add: main_loop.simps)




lemma count_lines_Nil [simp]: "count_lines [] = 0"
  by (simp add: count_lines_def)









section \<open>Length of a forecast\<close>



section \<open>A line that is not JSON\<close>



section \<open>Unknown tools and unknown methods\<close>



section \<open>A line that is JSON but not an object\<close>

text \<open>
  Claim C6 says that a line holding valid JSON that is not an object is answered
  by a parse error. It is not: \<^verbatim>\<open>json.loads\<close> returns the value, the first
  \<^verbatim>\<open>request.get\<close> raises \<^verbatim>\<open>AttributeError\<close>, and the second handler of \<^verbatim>\<open>main\<close>
  answers with code \<open>-32603\<close>. The line \<^verbatim>\<open>5\<close> shows it on both servers.
\<close>

theorem non_object_not_parse_error:
  \<open>json_loads sample_runtime ''5'' = Inr (JInt 5)
   \<and> \<not> is_dict (JInt 5)
   \<and> error_code (handle_line sample_runtime sample_mock_server ''5'') = Some (JInt (- 32603))
   \<and> error_code (handle_line sample_runtime sample_mcp_server ''5'') = Some (JInt (- 32603))
   \<and> error_code (handle_line sample_runtime sample_mock_server ''5'') \<noteq> Some (JInt (- 32700))
   \<and> error_code (handle_line sample_runtime sample_mcp_server ''5'') \<noteq> Some (JInt (- 32700))\<close>
  by code_simp

text \<open>
  Claim C6, amended. A line on which \<^verbatim>\<open>json.loads\<close> returns a value that is not a
  dictionary is answered by the internal-error response: code \<open>-32603\<close>, the text
  of the \<^verbatim>\<open>AttributeError\<close> as message, and a null id.
\<close>

theorem non_object_internal_error:
  assumes "json_loads rt line = Inr v" and "\<not> is_dict v"
  shows "handle_line rt srv line = error_response (- 32603) (message (no_attribute v ''get''))
       \<and> error_code (handle_line rt srv line) = Some (JInt (- 32603))
       \<and> field ''id'' (handle_line rt srv line) = Some JNull
       \<and> field ''result'' (handle_line rt srv line) = None"
proof -
  from assms have "handle_line rt srv line = error_response (- 32603) (message (no_attribute v ''get''))"
    by (cases v) (simp_all add: handle_line_def try_block_def handle_request_def no_attribute_def)
  then show ?thesis by simp
qed

theorem non_object_internal_error_witness:
  \<open>json_loads sample_runtime ''"hello"'' = Inr (JString ''hello'')
   \<and> \<not> is_dict (JString ''hello'')
   \<and> handle_line sample_runtime sample_mcp_server ''"hello"''
       = error_response (- 32603) (message (no_attribute (JString ''hello'') ''get''))
   \<and> error_code (handle_line sample_runtime sample_mcp_server ''"hello"'') = Some (JInt (- 32603))\<close>
proof -
  have h: \<open>json_loads sample_runtime ''"hello"'' = Inr (JString ''hello'')\<close> by code_simp
  have d: "\<not> is_dict (JString ''hello'')" by simp
  show ?thesis using h d non_object_internal_error [OF h d, of sample_mcp_server] by simp
qed

section \<open>One response for each line\<close>


section \<open>The id of a response\<close>








section \<open>Exceptions never leave the dispatcher\<close>




end
